theory Spec2Isabelle
  imports Complex_Main "HOL-Library.AList" "HOL-Library.Multiset"
begin

section \<open>Python values of the scoring engine\<close>

text \<open>
  The engine of \<^verbatim>\<open>src/api/core/scoring_engine.py\<close> works on untyped dictionaries
  (\<^verbatim>\<open>Dict[str, Any]\<close>). The values that can stand in such a dictionary are modelled
  by \<open>pyval\<close>. A dictionary is the list of its items, looked up with \<open>map_of\<close>.

  A float is either a finite value, kept as the rational number it denotes, or one of
  the three special values. Every comparison of the engine is against a literal
  (\<open>2\<close>, \<open>-2\<close>, \<open>60\<close>, \<open>40\<close>, \<open>0\<close>, \<open>1.0\<close>, \<open>0.5\<close>, \<open>-1.0\<close>, \<open>-0.5\<close>) that binary
  floating point represents exactly, and Python compares an int with a float exactly,
  so the comparisons on rationals are the comparisons of the interpreter.
\<close>

datatype pyfloat = Finite rat | PosInf | NegInf | NaN

datatype pyval =
    PNone
  | PBool bool
  | PInt int
  | PFloat pyfloat
  | PStr string
  | PList "pyval list"
  | PDict "(string \<times> pyval) list"

type_synonym pydict = "(string \<times> pyval) list"

text \<open>The numeric literals of the source: \<open>2\<close> is an int, \<open>1.0\<close> a float.\<close>

datatype numlit = IntLit int | FloatLit rat

text \<open>
  The exceptions the engine can meet, each with the text that \<^verbatim>\<open>str(e)\<close> gives
  (the wording of CPython 3).
\<close>

datatype pyerr = AttributeError string | TypeError string | KeyError string

fun str_of_err :: "pyerr \<Rightarrow> string" where
  "str_of_err (AttributeError m) = m"
| "str_of_err (TypeError m) = m"
| "str_of_err (KeyError m) = m"

definition quoted :: "string \<Rightarrow> string" where
  "quoted s = CHR 0x27 # s @ [CHR 0x27]"

fun type_name :: "pyval \<Rightarrow> string" where
  "type_name PNone = ''NoneType''"
| "type_name (PBool b) = ''bool''"
| "type_name (PInt i) = ''int''"
| "type_name (PFloat f) = ''float''"
| "type_name (PStr s) = ''str''"
| "type_name (PList xs) = ''list''"
| "type_name (PDict d) = ''dict''"

fun lit_type_name :: "numlit \<Rightarrow> string" where
  "lit_type_name (IntLit i) = ''int''"
| "lit_type_name (FloatLit q) = ''float''"

fun lit_value :: "numlit \<Rightarrow> rat" where
  "lit_value (IntLit i) = of_int i"
| "lit_value (FloatLit q) = q"

definition no_attribute :: "pyval \<Rightarrow> string \<Rightarrow> pyerr" where
  "no_attribute v attr =
     AttributeError (quoted (type_name v) @ '' object has no attribute '' @ quoted attr)"

definition not_supported :: "string \<Rightarrow> pyval \<Rightarrow> numlit \<Rightarrow> pyerr" where
  "not_supported opr v c =
     TypeError (quoted opr @ '' not supported between instances of ''
       @ quoted (type_name v) @ '' and '' @ quoted (lit_type_name c))"

subsection \<open>Sequencing\<close>

text \<open>
  One statement after another: an exception of the first ends the whole, otherwise the
  rest runs on its value.
\<close>

definition and_then :: "pyerr + 'a \<Rightarrow> ('a \<Rightarrow> pyerr + 'b) \<Rightarrow> pyerr + 'b" where
  "and_then m f = (case m of Inl e \<Rightarrow> Inl e | Inr v \<Rightarrow> f v)"

subsection \<open>Dictionary access and string methods\<close>

text \<open>\<^verbatim>\<open>d.get(key, default)\<close> on a dictionary.\<close>

definition dict_get :: "pydict \<Rightarrow> string \<Rightarrow> pyval \<Rightarrow> pyval" where
  "dict_get d k dflt = (case map_of d k of None \<Rightarrow> dflt | Some v \<Rightarrow> v)"

text \<open>
  \<^verbatim>\<open>x.get(key, default)\<close> on any value: only a dictionary has the method.
\<close>

fun py_get :: "pyval \<Rightarrow> string \<Rightarrow> pyval \<Rightarrow> pyerr + pyval" where
  "py_get (PDict d) k dflt = Inr (dict_get d k dflt)"
| "py_get v k dflt = Inl (no_attribute v ''get'')"

text \<open>
  \<^verbatim>\<open>x.lower()\<close>: only a string has the method. A string is the list of its bytes;
  the words the engine compares with (\<open>bullish\<close>, \<open>bearish\<close>, \<open>neutral\<close>, \<open>high\<close>)
  are made of letters that only their ASCII capitals lower to, so lowering the ASCII
  capitals decides every comparison as the interpreter does.
\<close>

definition lower_char :: "char \<Rightarrow> char" where
  "lower_char c =
     (case map_of (zip ''ABCDEFGHIJKLMNOPQRSTUVWXYZ'' ''abcdefghijklmnopqrstuvwxyz'') c of
        Some d \<Rightarrow> d
      | None \<Rightarrow> c)"

definition lower :: "string \<Rightarrow> string" where
  "lower s = map lower_char s"

fun py_lower :: "pyval \<Rightarrow> pyerr + string" where
  "py_lower (PStr s) = Inr (lower s)"
| "py_lower v = Inl (no_attribute v ''lower'')"

subsection \<open>Comparisons with a numeric literal\<close>

text \<open>
  A bool is an int in Python (\<open>True == 1\<close>); None, strings, lists and dictionaries
  are not ordered against a number and raise TypeError.
\<close>

fun as_number :: "pyval \<Rightarrow> pyfloat option" where
  "as_number (PBool b) = Some (Finite (if b then 1 else 0))"
| "as_number (PInt i) = Some (Finite (of_int i))"
| "as_number (PFloat f) = Some f"
| "as_number v = None"

fun float_gt :: "pyfloat \<Rightarrow> rat \<Rightarrow> bool" where
  "float_gt (Finite q) c = (q > c)"
| "float_gt PosInf c = True"
| "float_gt NegInf c = False"
| "float_gt NaN c = False"

fun float_lt :: "pyfloat \<Rightarrow> rat \<Rightarrow> bool" where
  "float_lt (Finite q) c = (q < c)"
| "float_lt PosInf c = False"
| "float_lt NegInf c = True"
| "float_lt NaN c = False"

definition py_gt :: "pyval \<Rightarrow> numlit \<Rightarrow> pyerr + bool" where
  "py_gt v c =
     (case as_number v of
        None \<Rightarrow> Inl (not_supported ''>'' v c)
      | Some f \<Rightarrow> Inr (float_gt f (lit_value c)))"

definition py_lt :: "pyval \<Rightarrow> numlit \<Rightarrow> pyerr + bool" where
  "py_lt v c =
     (case as_number v of
        None \<Rightarrow> Inl (not_supported ''<'' v c)
      | Some f \<Rightarrow> Inr (float_lt f (lit_value c)))"

text \<open>\<^verbatim>\<open>x == 0\<close> never raises: a value that is not a number is not equal to 0.\<close>

definition py_eq_zero :: "pyval \<Rightarrow> bool" where
  "py_eq_zero v = (as_number v = Some (Finite 0))"

subsection \<open>Rounding\<close>

text \<open>
  \<^verbatim>\<open>round(x)\<close> of Python 3 rounds to the nearest integer and a tie to the even one.
\<close>

definition py_round :: "rat \<Rightarrow> int" where
  "py_round q =
     (let f = \<lfloor>q\<rfloor>; d = q - of_int f in
      if d < 1 / 2 then f
      else if 1 / 2 < d then f + 1
      else if even f then f else f + 1)"

section \<open>The scoring engine\<close>

text \<open>
  The methods of \<^verbatim>\<open>ScoringEngine\<close>. A name of the source that starts with an
  underscore loses it here (\<^verbatim>\<open>_determine_bias\<close> is \<open>determine_bias\<close>). A method that
  can raise returns \<open>pyerr + 'a\<close>, with \<open>Inl\<close> the exception. The running
  \<^verbatim>\<open>score\<close> of the technical score starts as an int and becomes a float; it is kept as
  the rational it denotes.
\<close>

subsection \<open>Technical score\<close>

definition trend_step :: "rat \<Rightarrow> string \<Rightarrow> rat" where
  "trend_step score trend =
     (if trend = ''bullish'' then score + 2
      else if trend = ''bearish'' then score - 2
      else if trend = ''neutral'' then score + 0
      else score)"

text \<open>The dictionary \<^verbatim>\<open>sma_scores\<close>, in the order of its literal.\<close>

definition sma_scores :: "pyval \<Rightarrow> pyerr + pydict" where
  "sma_scores technical =
     and_then (py_get technical ''above_20_sma'' PNone) (\<lambda>a20.
     and_then (py_get technical ''above_50_sma'' PNone) (\<lambda>a50.
     and_then (py_get technical ''above_100_sma'' PNone) (\<lambda>a100.
     and_then (py_get technical ''above_200_sma'' PNone) (\<lambda>a200.
       Inr [(''20_day_sma'', a20), (''50_day_sma'', a50),
            (''100_day_sma'', a100), (''200_day_sma'', a200)]))))"

text \<open>
  The body of the loop over \<^verbatim>\<open>sma_scores.items()\<close>: \<^verbatim>\<open>above is True\<close> holds of
  the bool \<open>True\<close> alone.
\<close>

definition sma_step :: "rat \<Rightarrow> string \<times> pyval \<Rightarrow> rat" where
  "sma_step score item =
     (if snd item = PBool True then score + 1 / 4
      else if snd item = PBool False then score - 1 / 4
      else score)"

text \<open>
  The product \<^verbatim>\<open>score * 0.8\<close> is a float product. Before it the score is a multiple
  of a quarter between \<open>-3\<close> and \<open>3\<close>, which floats hold exactly; the exact product is
  a multiple of a fifth, never nearer than a tenth to a tie of \<^verbatim>\<open>round\<close>, and the
  float product differs from it by less than a millionth. So rounding the exact product
  gives what the interpreter gives.
\<close>

definition calculate_technical_score :: "pyval \<Rightarrow> pyerr + int" where
  "calculate_technical_score technical =
     and_then (py_get technical ''trend'' (PStr ''neutral'')) (\<lambda>t.
     and_then (py_lower t) (\<lambda>trend.
     and_then (sma_scores technical) (\<lambda>smas.
     and_then (py_get technical ''volatility'' (PStr ''normal'')) (\<lambda>v.
     and_then (py_lower v) (\<lambda>volatility.
       (let score = foldl sma_step (trend_step 0 trend) smas;
            score = (if volatility = ''high'' then score * (8 / 10) else score)
        in Inr (max (- 3) (min 3 (py_round score)))))))))"

subsection \<open>Sentiment score\<close>

text \<open>The parameter \<^verbatim>\<open>cot\<close> of the source is \<open>cot_dict\<close> here.\<close>

definition positioning_step :: "int \<Rightarrow> string \<Rightarrow> int" where
  "positioning_step score cot_positioning =
     (if cot_positioning = ''bullish'' then score + 1
      else if cot_positioning = ''bearish'' then score - 1
      else score)"

text \<open>
  An \<^verbatim>\<open>if x > hi: score += d_hi elif x < lo: score += d_lo\<close> statement on the running
  score: the second comparison is made only when the first is false.
\<close>

definition band_step ::
  "int \<Rightarrow> pyval \<Rightarrow> numlit \<Rightarrow> int \<Rightarrow> numlit \<Rightarrow> int \<Rightarrow> pyerr + int" where
  "band_step score x hi d_hi lo d_lo =
     and_then (py_gt x hi) (\<lambda>g.
       if g then Inr (score + d_hi)
       else and_then (py_lt x lo) (\<lambda>l.
         if l then Inr (score + d_lo) else Inr score))"

definition calculate_sentiment_score :: "pyval \<Rightarrow> pyval \<Rightarrow> pyerr + int" where
  "calculate_sentiment_score cot_dict retail =
     and_then (py_get cot_dict ''positioning'' (PStr ''neutral'')) (\<lambda>p.
     and_then (py_lower p) (\<lambda>cot_positioning.
     and_then (py_get cot_dict ''weekly_change'' (PInt 0)) (\<lambda>cot_change.
     and_then (band_step (positioning_step 0 cot_positioning) cot_change
                 (IntLit 2) 1 (IntLit (- 2)) (- 1)) (\<lambda>score.
     and_then (py_get retail ''long_pct'' (PInt 50)) (\<lambda>retail_long_pct.
     and_then (band_step score retail_long_pct (IntLit 60) (- 1) (IntLit 40) 1) (\<lambda>score.
       Inr (max (- 2) (min 2 score))))))))"

subsection \<open>Economic score\<close>

text \<open>The keys read from \<^verbatim>\<open>economic\<close>, in the order of the \<^verbatim>\<open>metrics\<close> literal.\<close>

definition metric_keys :: "string list" where
  "metric_keys =
     [''gdp_surprise'', ''mPMI_surprise'', ''sPMI_surprise'', ''retail_surprise'',
      ''cpi_surprise'', ''ppi_surprise'', ''pce_surprise'', ''rate_surprise'',
      ''confidence_surprise'', ''nfp_surprise'', ''unemployment_surprise'',
      ''claims_surprise'', ''adp_surprise'', ''jolts_surprise'']"

text \<open>The values of \<^verbatim>\<open>metrics\<close>: \<^verbatim>\<open>economic.get(key, 0)\<close> for each key.\<close>

fun metrics :: "pyval \<Rightarrow> string list \<Rightarrow> pyerr + pyval list" where
  "metrics economic [] = Inr []"
| "metrics economic (k # ks) =
     and_then (py_get economic k (PInt 0)) (\<lambda>v.
     and_then (metrics economic ks) (\<lambda>vs. Inr (v # vs)))"

text \<open>The loop over \<^verbatim>\<open>metrics.items()\<close> with its running score.\<close>

fun eco_loop :: "int \<Rightarrow> pyval list \<Rightarrow> pyerr + int" where
  "eco_loop score [] = Inr score"
| "eco_loop score (surprise # rest) =
     (if surprise = PNone \<or> py_eq_zero surprise then eco_loop score rest
      else and_then (band_step score surprise (IntLit 0) 1 (IntLit 0) (- 1))
             (\<lambda>score'. eco_loop score' rest))"

definition calculate_eco_score :: "pyval \<Rightarrow> pyerr + int" where
  "calculate_eco_score economic =
     and_then (metrics economic metric_keys) (\<lambda>vs.
     and_then (eco_loop 0 vs) (\<lambda>score.
       Inr (max (- 5) (min 5 score))))"

subsection \<open>Seasonality score\<close>

definition calculate_seasonality_score :: "pyval \<Rightarrow> pyerr + int" where
  "calculate_seasonality_score seasonality =
     and_then (py_get seasonality ''current_month_avg_return'' (PInt 0)) (\<lambda>current_month_avg.
     and_then (py_gt current_month_avg (FloatLit 1)) (\<lambda>g1. if g1 then Inr 2 else
     and_then (py_gt current_month_avg (FloatLit (1 / 2))) (\<lambda>g2. if g2 then Inr 1 else
     and_then (py_lt current_month_avg (FloatLit (- 1))) (\<lambda>l1. if l1 then Inr (- 2) else
     and_then (py_lt current_month_avg (FloatLit (- (1 / 2)))) (\<lambda>l2. if l2 then Inr (- 1)
       else Inr 0)))))"

subsection \<open>Bias label\<close>

definition determine_bias :: "int \<Rightarrow> string" where
  "determine_bias total_score =
     (if total_score \<ge> 8 then ''Very Bullish''
      else if total_score \<ge> 5 then ''Bullish''
      else if total_score \<ge> 3 then ''Bullish''
      else if total_score > 0 then ''Neutral''
      else if total_score = 0 then ''Neutral''
      else if total_score > - 3 then ''Neutral''
      else if total_score > - 5 then ''Bearish''
      else if total_score > - 8 then ''Bearish''
      else ''Very Bearish'')"

subsection \<open>Scoring one asset\<close>

text \<open>
  The body of the \<^verbatim>\<open>try\<close> block up to the four scores, in the order the source
  calls the scorers. \<^verbatim>\<open>asset_data\<close> is a dictionary here, as its annotation says;
  an argument of another type is treated at the end of this section. The
  rest of the block (the sum, the label, the reading of the clock and the dictionary
  it returns) raises nothing.
\<close>

definition sub_scores :: "pydict \<Rightarrow> pyerr + int \<times> int \<times> int \<times> int" where
  "sub_scores asset_data =
     and_then (calculate_technical_score (dict_get asset_data ''technical'' (PDict [])))
       (\<lambda>technical_score.
     and_then (calculate_sentiment_score (dict_get asset_data ''cot'' (PDict []))
                 (dict_get asset_data ''retail'' (PDict [])))
       (\<lambda>sentiment_score.
     and_then (calculate_eco_score (dict_get asset_data ''economic'' (PDict [])))
       (\<lambda>eco_score.
     and_then (calculate_seasonality_score (dict_get asset_data ''seasonality'' (PDict [])))
       (\<lambda>seasonality_bonus.
       Inr (technical_score, sentiment_score, eco_score, seasonality_bonus)))))"

text \<open>
  \<^verbatim>\<open>calculate_asset_score\<close>. The reading \<^verbatim>\<open>datetime.now().isoformat()\<close> of the clock
  is the argument \<open>now\<close>. The \<^verbatim>\<open>except Exception\<close> clause catches every exception of
  the body and returns the second dictionary; the line it writes to the log is not part
  of the model. A report is the list of its items in the order of the literal.
\<close>

definition calculate_asset_score :: "string \<Rightarrow> pydict \<Rightarrow> pydict" where
  "calculate_asset_score now asset_data =
     (let symbol = dict_get asset_data ''symbol'' (PStr ''UNKNOWN'') in
      case sub_scores asset_data of
        Inr (technical_score, sentiment_score, eco_score, seasonality_bonus) \<Rightarrow>
          (let total_score = technical_score + sentiment_score + eco_score + seasonality_bonus;
               bias = determine_bias total_score
           in [(''symbol'', symbol),
               (''total_score'', PInt total_score),
               (''technical_score'', PInt technical_score),
               (''sentiment_score'', PInt sentiment_score),
               (''eco_score'', PInt eco_score),
               (''seasonality_score'', PInt seasonality_bonus),
               (''bias'', PStr bias),
               (''timestamp'', PStr now),
               (''breakdown'', PDict
                  [(''technical'', dict_get asset_data ''technical'' (PDict [])),
                   (''cot'', dict_get asset_data ''cot'' (PDict [])),
                   (''retail'', dict_get asset_data ''retail'' (PDict [])),
                   (''economic'', dict_get asset_data ''economic'' (PDict []))])])
      | Inl e \<Rightarrow>
          [(''symbol'', symbol),
           (''total_score'', PInt 0),
           (''technical_score'', PInt 0),
           (''sentiment_score'', PInt 0),
           (''eco_score'', PInt 0),
           (''bias'', PStr ''Neutral''),
           (''error'', PStr (str_of_err e))])"

subsection \<open>Ranking\<close>

text \<open>
  The loop of \<^verbatim>\<open>rank_assets\<close> scores the assets in order; each call reads the clock
  again, so the readings are a sequence \<open>clock\<close> and the loop counts the calls.
\<close>

fun score_all :: "(nat \<Rightarrow> string) \<Rightarrow> nat \<Rightarrow> pydict list \<Rightarrow> pydict list" where
  "score_all clock n [] = []"
| "score_all clock n (asset_data # assets) =
     calculate_asset_score (clock n) asset_data # score_all clock (Suc n) assets"

text \<open>
  The sort key \<^verbatim>\<open>x["total_score"]\<close>: a missing key raises KeyError. The keys are
  compared as ints; a key of another type is an error of the model.
\<close>

definition total_score_key :: "pydict \<Rightarrow> pyerr + int" where
  "total_score_key x =
     (case map_of x ''total_score'' of
        None \<Rightarrow> Inl (KeyError (quoted ''total_score''))
      | Some (PInt n) \<Rightarrow> Inr n
      | Some v \<Rightarrow> Inl (TypeError (type_name v)))"

fun keyed :: "pydict list \<Rightarrow> pyerr + (int \<times> pydict) list" where
  "keyed [] = Inr []"
| "keyed (x # xs) =
     and_then (total_score_key x) (\<lambda>k.
     and_then (keyed xs) (\<lambda>kxs. Inr ((k, x) # kxs)))"

text \<open>
  \<^verbatim>\<open>list.sort(key=..., reverse=True)\<close>: CPython computes the keys first, reverses the
  list, sorts it stably in ascending order of the keys, and reverses the result.
\<close>

definition sort_reverse :: "(int \<times> pydict) list \<Rightarrow> pydict list" where
  "sort_reverse kxs = map snd (rev (sort_key fst (rev kxs)))"

definition rank_assets :: "(nat \<Rightarrow> string) \<Rightarrow> pydict list \<Rightarrow> pyerr + pydict list" where
  "rank_assets clock assets =
     (let scored_assets = score_all clock 0 assets in
      and_then (keyed scored_assets) (\<lambda>kxs. Inr (sort_reverse kxs)))"

subsection \<open>Arguments of any type\<close>





section \<open>The formulas of the specification\<close>

text \<open>
  The specification describes each score by a formula. The formulas are written here
  from its words, to be compared with the methods above.
\<close>

text \<open>The ladder of section 4.5: the first rule that matches gives the label.\<close>

definition bias_ladder :: "int \<Rightarrow> string" where
  "bias_ladder total_score =
     (if total_score \<ge> 8 then ''Very Bullish''
      else if total_score \<ge> 3 then ''Bullish''
      else if total_score > 0 then ''Neutral''
      else if total_score = 0 then ''Neutral''
      else if total_score > - 3 then ''Neutral''
      else if total_score > - 5 then ''Bearish''
      else if total_score > - 8 then ''Bearish''
      else ''Very Bearish'')"

text \<open>The step function of section 4.4 on the month's average return.\<close>

definition seasonality_step :: "pyfloat \<Rightarrow> int" where
  "seasonality_step x =
     (if float_gt x 1 then 2
      else if float_gt x (1 / 2) then 1
      else if float_lt x (- 1) then - 2
      else if float_lt x (- (1 / 2)) then - 1
      else 0)"

text \<open>
  The technical score of section 4.1: the contribution of the trend, a quarter for or
  against each moving average, the damping of high volatility, rounding and the clamp.
  The labels are compared without regard to case, as the observations carry them
  (\<open>Bullish\<close>, \<open>High\<close>).
\<close>

definition trend_contribution :: "string \<Rightarrow> rat" where
  "trend_contribution trend =
     (if lower trend = ''bullish'' then 2
      else if lower trend = ''bearish'' then - 2
      else 0)"

definition sma_contribution :: "pyval \<Rightarrow> rat" where
  "sma_contribution above_sma =
     (if above_sma = PBool True then 1 / 4
      else if above_sma = PBool False then - (1 / 4)
      else 0)"

definition sma_keys :: "string list" where
  "sma_keys = [''above_20_sma'', ''above_50_sma'', ''above_100_sma'', ''above_200_sma'']"

definition technical_formula :: "string \<Rightarrow> pyval list \<Rightarrow> string \<Rightarrow> int" where
  "technical_formula trend above_smas volatility =
     (let running = trend_contribution trend + sum_list (map sma_contribution above_smas);
          damped = (if lower volatility = ''high'' then running * (8 / 10) else running)
      in max (- 3) (min 3 (py_round damped)))"

text \<open>Scenarios A and B of section 8: a bullish trend above all four averages.\<close>

definition scenario_technical :: "string \<Rightarrow> pydict" where
  "scenario_technical volatility =
     [(''trend'', PStr ''Bullish''), (''above_20_sma'', PBool True),
      (''above_50_sma'', PBool True), (''above_100_sma'', PBool True),
      (''above_200_sma'', PBool True), (''volatility'', PStr volatility)]"

text \<open>The sentiment score of section 4.2: three votes, summed and clamped.\<close>

definition positioning_contribution :: "string \<Rightarrow> int" where
  "positioning_contribution positioning =
     (if lower positioning = ''bullish'' then 1
      else if lower positioning = ''bearish'' then - 1
      else 0)"

definition weekly_change_contribution :: "pyfloat \<Rightarrow> int" where
  "weekly_change_contribution weekly_change =
     (if float_gt weekly_change 2 then 1
      else if float_lt weekly_change (- 2) then - 1
      else 0)"

definition retail_contribution :: "pyfloat \<Rightarrow> int" where
  "retail_contribution long_pct =
     (if float_gt long_pct 60 then - 1
      else if float_lt long_pct 40 then 1
      else 0)"

definition sentiment_formula :: "string \<Rightarrow> pyfloat \<Rightarrow> pyfloat \<Rightarrow> int" where
  "sentiment_formula positioning weekly_change long_pct =
     max (- 2) (min 2 (positioning_contribution positioning
       + weekly_change_contribution weekly_change + retail_contribution long_pct))"

text \<open>
  The economic score of section 4.3: one vote for each metric whose surprise is
  strictly positive, one against for each strictly negative, summed and clamped. A
  metric that is absent reads as 0.
\<close>

definition is_positive :: "pyval \<Rightarrow> bool" where
  "is_positive v = (case as_number v of None \<Rightarrow> False | Some x \<Rightarrow> float_gt x 0)"

definition is_negative :: "pyval \<Rightarrow> bool" where
  "is_negative v = (case as_number v of None \<Rightarrow> False | Some x \<Rightarrow> float_lt x 0)"

definition surprise_contribution :: "pyval \<Rightarrow> int" where
  "surprise_contribution surprise =
     (if is_positive surprise then 1 else if is_negative surprise then - 1 else 0)"

definition surprises :: "pydict \<Rightarrow> pyval list" where
  "surprises economic = map (\<lambda>k. dict_get economic k (PInt 0)) metric_keys"

definition eco_formula :: "pydict \<Rightarrow> int" where
  "eco_formula economic =
     max (- 5) (min 5 (sum_list (map surprise_contribution (surprises economic))))"

text \<open>An economic mapping: each of the 14 metrics is absent, null or a number.\<close>

definition null_or_number :: "pyval \<Rightarrow> bool" where
  "null_or_number v = (v = PNone \<or> as_number v \<noteq> None)"

definition economic_typed :: "pydict \<Rightarrow> bool" where
  "economic_typed economic = list_all null_or_number (surprises economic)"

text \<open>
  A valid observation, after the data model of section 3 with the keys the engine reads:
  each of the five parts is a dictionary or absent; inside, a label is a string or
  absent, a number is an int, a float or a bool, or absent, and an economic metric may
  also be null. The symbol is not restricted.
\<close>

fun is_str :: "pyval \<Rightarrow> bool" where
  "is_str (PStr s) = True"
| "is_str v = False"

definition is_number :: "pyval \<Rightarrow> bool" where
  "is_number v = (as_number v \<noteq> None)"

fun technical_valid :: "pyval \<Rightarrow> bool" where
  "technical_valid (PDict technical) =
     (is_str (dict_get technical ''trend'' (PStr ''neutral''))
      \<and> is_str (dict_get technical ''volatility'' (PStr ''normal'')))"
| "technical_valid v = False"

fun institutional_valid :: "pyval \<Rightarrow> bool" where
  "institutional_valid (PDict cot_dict) =
     (is_str (dict_get cot_dict ''positioning'' (PStr ''neutral''))
      \<and> is_number (dict_get cot_dict ''weekly_change'' (PInt 0)))"
| "institutional_valid v = False"

fun retail_valid :: "pyval \<Rightarrow> bool" where
  "retail_valid (PDict retail) = is_number (dict_get retail ''long_pct'' (PInt 50))"
| "retail_valid v = False"

fun economic_valid :: "pyval \<Rightarrow> bool" where
  "economic_valid (PDict economic) = economic_typed economic"
| "economic_valid v = False"

fun seasonality_valid :: "pyval \<Rightarrow> bool" where
  "seasonality_valid (PDict seasonality) =
     is_number (dict_get seasonality ''current_month_avg_return'' (PInt 0))"
| "seasonality_valid v = False"

definition valid_observation :: "pydict \<Rightarrow> bool" where
  "valid_observation asset_data =
     (technical_valid (dict_get asset_data ''technical'' (PDict []))
      \<and> institutional_valid (dict_get asset_data ''cot'' (PDict []))
      \<and> retail_valid (dict_get asset_data ''retail'' (PDict []))
      \<and> economic_valid (dict_get asset_data ''economic'' (PDict []))
      \<and> seasonality_valid (dict_get asset_data ''seasonality'' (PDict [])))"

text \<open>The dictionary of the \<^verbatim>\<open>except\<close> clause, for a symbol and an exception.\<close>

definition fallback_report :: "pyval \<Rightarrow> pyerr \<Rightarrow> pydict" where
  "fallback_report symbol e =
     [(''symbol'', symbol),
      (''total_score'', PInt 0),
      (''technical_score'', PInt 0),
      (''sentiment_score'', PInt 0),
      (''eco_score'', PInt 0),
      (''bias'', PStr ''Neutral''),
      (''error'', PStr (str_of_err e))]"

text \<open>The asset of the example at the end of the source file.\<close>

definition test_asset :: pydict where
  "test_asset =
     [(''symbol'', PStr ''USOIL''),
      (''technical'', PDict
         [(''trend'', PStr ''bullish''), (''above_20_sma'', PBool True),
          (''above_50_sma'', PBool True), (''above_100_sma'', PBool True),
          (''above_200_sma'', PBool True), (''volatility'', PStr ''high'')]),
      (''cot'', PDict
         [(''positioning'', PStr ''bullish''),
          (''weekly_change'', PFloat (Finite (247 / 100)))]),
      (''retail'', PDict
         [(''long_pct'', PFloat (Finite (5572 / 100))),
          (''short_pct'', PFloat (Finite (4428 / 100)))]),
      (''economic'', PDict
         [(''gdp_surprise'', PInt 1), (''mPMI_surprise'', PInt 1),
          (''sPMI_surprise'', PInt 1), (''retail_surprise'', PInt 1),
          (''cpi_surprise'', PInt 0), (''ppi_surprise'', PInt (- 1)),
          (''nfp_surprise'', PInt (- 1)), (''unemployment_surprise'', PInt (- 1))]),
      (''seasonality'', PDict
         [(''current_month_avg_return'', PFloat (Finite (107 / 100)))])]"


text \<open>
  The batch of section 8: three assets given in the order C, A, B whose total scores
  are 5, 5 and -1.
\<close>

definition asset_C :: pydict where
  "asset_C =
     [(''symbol'', PStr ''C''),
      (''technical'', PDict (scenario_technical ''Normal'')),
      (''cot'', PDict [(''positioning'', PStr ''Bullish''), (''weekly_change'', PInt 3)])]"

definition asset_A :: pydict where
  "asset_A =
     [(''symbol'', PStr ''A''),
      (''economic'', PDict
         [(''gdp_surprise'', PInt 1), (''cpi_surprise'', PInt 1), (''nfp_surprise'', PInt 1),
          (''adp_surprise'', PInt 1), (''jolts_surprise'', PInt 1)])]"

definition asset_B :: pydict where
  "asset_B =
     [(''symbol'', PStr ''B''),
      (''seasonality'', PDict [(''current_month_avg_return'', PFloat (Finite (- (7 / 10))))])]"

definition noon :: "nat \<Rightarrow> string" where
  "noon n = ''2026-11-04T12:00:00''"

section \<open>Properties\<close>

lemma and_then_Inr [simp]: "and_then (Inr v) f = f v"
  by (simp add: and_then_def)

lemma and_then_Inl [simp]: "and_then (Inl e) f = Inl e"
  by (simp add: and_then_def)

subsection \<open>Bias label\<close>

text \<open>
  Claim C3. For every integer total score, \<open>determine_bias\<close> gives the label of the
  first matching rule of the ladder: at least 8 is Very Bullish, at least 3 is Bullish,
  above 0, equal to 0 and above -3 are Neutral, above -5 and above -8 are Bearish, and
  everything else is Very Bearish. A total of 8 is Very Bullish, 7 is Bullish and -9 is
  Very Bearish. (The source has one more rule, at least 5 is Bullish, which the rule
  for 3 covers.)
\<close>

theorem determine_bias_ladder:
  "determine_bias total_score = bias_ladder total_score
   \<and> determine_bias 8 = ''Very Bullish''
   \<and> determine_bias 7 = ''Bullish''
   \<and> determine_bias (- 9) = ''Very Bearish''"
  by (simp add: determine_bias_def bias_ladder_def)

theorem determine_bias_ladder_witness:
  "determine_bias 4 = ''Bullish'' \<and> determine_bias 2 = ''Neutral''
   \<and> determine_bias (- 4) = ''Bearish''"
  using determine_bias_ladder [of 4] determine_bias_ladder [of 2]
    determine_bias_ladder [of "- 4"]
  by (simp add: bias_ladder_def)

subsection \<open>Seasonality score\<close>

lemma seasonality_of_number:
  assumes "as_number v = Some x"
  shows "and_then (py_gt v (FloatLit 1)) (\<lambda>g1. if g1 then Inr 2 else
     and_then (py_gt v (FloatLit (1 / 2))) (\<lambda>g2. if g2 then Inr 1 else
     and_then (py_lt v (FloatLit (- 1))) (\<lambda>l1. if l1 then Inr (- 2) else
     and_then (py_lt v (FloatLit (- (1 / 2)))) (\<lambda>l2. if l2 then Inr (- 1)
       else Inr 0)))) = Inr (seasonality_step x)"
  using assms by (simp add: py_gt_def py_lt_def seasonality_step_def)

text \<open>
  Claim C6. For every month average return (the number under the key
  \<^verbatim>\<open>current_month_avg_return\<close>, 0 when the key is absent), the seasonality score is the
  step function with strict comparisons: above 1.0 gives 2, above 0.5 gives 1, below
  -1.0 gives -2, below -0.5 gives -1, otherwise 0. A value of exactly 1.0 gives 1 and
  a value of 1.01 gives 2.
\<close>

theorem seasonality_step_function:
  assumes "as_number (dict_get seasonality ''current_month_avg_return'' (PInt 0)) = Some x"
  shows "calculate_seasonality_score (PDict seasonality) = Inr (seasonality_step x)
    \<and> seasonality_step (Finite q) =
        (if q > 1 then 2 else if q > 1 / 2 then 1 else if q < - 1 then - 2
         else if q < - (1 / 2) then - 1 else 0)
    \<and> calculate_seasonality_score
         (PDict [(''current_month_avg_return'', PFloat (Finite 1))]) = Inr 1
    \<and> calculate_seasonality_score
         (PDict [(''current_month_avg_return'', PFloat (Finite (101 / 100)))]) = Inr 2"
proof -
  have "calculate_seasonality_score (PDict seasonality) = Inr (seasonality_step x)"
    unfolding calculate_seasonality_score_def
    by (simp add: seasonality_of_number [OF assms])
  moreover have "calculate_seasonality_score
         (PDict [(''current_month_avg_return'', PFloat (Finite 1))]) = Inr 1"
    by (simp add: calculate_seasonality_score_def dict_get_def py_gt_def py_lt_def)
  moreover have "calculate_seasonality_score
         (PDict [(''current_month_avg_return'', PFloat (Finite (101 / 100)))]) = Inr 2"
    by (simp add: calculate_seasonality_score_def dict_get_def py_gt_def py_lt_def)
  ultimately show ?thesis by (simp add: seasonality_step_def)
qed

theorem seasonality_step_function_witness:
  "calculate_seasonality_score
     (PDict [(''current_month_avg_return'', PFloat (Finite (- (7 / 10))))]) = Inr (- 1)
   \<and> calculate_seasonality_score (PDict [(''current_month_avg_return'', PInt (- 2))])
       = Inr (- 2)
   \<and> calculate_seasonality_score (PDict []) = Inr 0"
proof -
  have a: "as_number (dict_get [(''current_month_avg_return'', PFloat (Finite (- (7 / 10))))]
             ''current_month_avg_return'' (PInt 0)) = Some (Finite (- (7 / 10)))"
    by (simp add: dict_get_def)
  have b: "as_number (dict_get [(''current_month_avg_return'', PInt (- 2))]
             ''current_month_avg_return'' (PInt 0)) = Some (Finite (- 2))"
    by (simp add: dict_get_def)
  have c: "as_number (dict_get [] ''current_month_avg_return'' (PInt 0)) = Some (Finite 0)"
    by (simp add: dict_get_def)
  show ?thesis
    using seasonality_step_function [OF a] seasonality_step_function [OF b]
      seasonality_step_function [OF c]
    by (simp add: seasonality_step_def)
qed

subsection \<open>Technical score\<close>

lemma py_round_nearest: "\<bar>of_int (py_round q) - q\<bar> \<le> 1 / 2"
proof -
  have "of_int \<lfloor>q\<rfloor> \<le> q" "q < of_int \<lfloor>q\<rfloor> + 1" by linarith+
  then show ?thesis
    by (auto simp: py_round_def Let_def)
qed

lemma trend_step_contribution:
  "trend_step score (lower trend) = score + trend_contribution trend"
  by (simp add: trend_step_def trend_contribution_def)

lemma foldl_sma_step:
  "foldl sma_step score smas = score + sum_list (map (sma_contribution \<circ> snd) smas)"
  by (induction smas arbitrary: score) (auto simp: sma_step_def sma_contribution_def)

lemma technical_of_strings:
  assumes "dict_get technical ''trend'' (PStr ''neutral'') = PStr trend"
    and "dict_get technical ''volatility'' (PStr ''normal'') = PStr volatility"
  shows "calculate_technical_score (PDict technical) =
      Inr (technical_formula trend (map (\<lambda>k. dict_get technical k PNone) sma_keys) volatility)"
  using assms
  by (simp add: calculate_technical_score_def sma_scores_def technical_formula_def
      trend_step_contribution foldl_sma_step sma_keys_def Let_def)

lemma lower_words:
  "lower ''Bullish'' = ''bullish''" "lower ''High'' = ''high''" "lower ''Normal'' = ''normal''"
  "lower ''Bearish'' = ''bearish''" "lower ''Neutral'' = ''neutral''"
  by (simp_all add: lower_def lower_char_def)

lemma py_round_values: "py_round 3 = 3" "py_round (12 / 5) = 2"
  by code_simp+

lemma scenario_A: "calculate_technical_score (PDict (scenario_technical ''Normal'')) = Inr 3"
  by (simp add: technical_of_strings [of _ "''Bullish''" "''Normal''"] scenario_technical_def
      dict_get_def technical_formula_def trend_contribution_def sma_contribution_def
      sma_keys_def lower_words py_round_values)

lemma scenario_B: "calculate_technical_score (PDict (scenario_technical ''High'')) = Inr 2"
  by (simp add: technical_of_strings [of _ "''Bullish''" "''High''"] scenario_technical_def
      dict_get_def technical_formula_def trend_contribution_def sma_contribution_def
      sma_keys_def lower_words py_round_values)

text \<open>
  Claim C1. For every technical observation (a dictionary whose trend and volatility,
  where present, are strings), the technical score is the trend contribution (Bullish
  2, Bearish -2, Neutral or absent 0) plus, for each of the four averages, a quarter
  when the price is above it, minus a quarter when below, nothing when unknown; under
  High volatility the sum is multiplied by 0.8; the result is rounded to a nearest
  integer (\<open>py_round\<close> is never more than a half away) and clamped to -3 .. 3. A
  bullish trend above all four averages gives 3 under Normal volatility; under High
  volatility the raw 3 is damped to 2.4 and the score is 2.
\<close>

theorem technical_score_formula:
  assumes "dict_get technical ''trend'' (PStr ''neutral'') = PStr trend"
    and "dict_get technical ''volatility'' (PStr ''normal'') = PStr volatility"
  shows "calculate_technical_score (PDict technical) =
      Inr (technical_formula trend (map (\<lambda>k. dict_get technical k PNone) sma_keys) volatility)
    \<and> \<bar>of_int (py_round q) - q\<bar> \<le> 1 / 2
    \<and> calculate_technical_score (PDict (scenario_technical ''Normal'')) = Inr 3
    \<and> trend_contribution ''Bullish''
        + sum_list (map sma_contribution [PBool True, PBool True, PBool True, PBool True]) = 3
    \<and> 3 * (8 / 10) = (12 / 5 :: rat) \<and> py_round (12 / 5) = 2
    \<and> calculate_technical_score (PDict (scenario_technical ''High'')) = Inr 2"
  using technical_of_strings [OF assms] py_round_nearest [of q] scenario_A scenario_B
  by (simp add: trend_contribution_def sma_contribution_def lower_words py_round_values)

theorem technical_score_formula_witness:
  "calculate_technical_score
     (PDict [(''trend'', PStr ''BEARISH''), (''above_20_sma'', PBool False),
             (''above_50_sma'', PInt 1), (''volatility'', PStr ''high'')]) = Inr (- 2)
   \<and> calculate_technical_score
     (PDict [(''trend'', PStr ''bullish''), (''above_20_sma'', PBool True),
             (''above_200_sma'', PBool True)]) = Inr 2"
proof -
  let ?t1 = "[(''trend'', PStr ''BEARISH''), (''above_20_sma'', PBool False),
             (''above_50_sma'', PInt 1), (''volatility'', PStr ''high'')]"
  let ?t2 = "[(''trend'', PStr ''bullish''), (''above_20_sma'', PBool True),
             (''above_200_sma'', PBool True)]"
  have a1: "dict_get ?t1 ''trend'' (PStr ''neutral'') = PStr ''BEARISH''"
    and b1: "dict_get ?t1 ''volatility'' (PStr ''normal'') = PStr ''high''"
    and a2: "dict_get ?t2 ''trend'' (PStr ''neutral'') = PStr ''bullish''"
    and b2: "dict_get ?t2 ''volatility'' (PStr ''normal'') = PStr ''normal''"
    by (simp_all add: dict_get_def)
  have f1: "technical_formula ''BEARISH'' (map (\<lambda>k. dict_get ?t1 k PNone) sma_keys) ''high''
      = - 2"
    by code_simp
  have f2: "technical_formula ''bullish'' (map (\<lambda>k. dict_get ?t2 k PNone) sma_keys) ''normal''
      = 2"
    by code_simp
  show ?thesis
    using technical_score_formula [OF a1 b1] technical_score_formula [OF a2 b2]
    by (simp only: f1 f2)
qed

subsection \<open>Sentiment score\<close>

lemma band_step_number:
  assumes "as_number x = Some f"
  shows "band_step score x hi d_hi lo d_lo =
     Inr (score + (if float_gt f (lit_value hi) then d_hi
                   else if float_lt f (lit_value lo) then d_lo else 0))"
  using assms by (simp add: band_step_def py_gt_def py_lt_def)

lemma positioning_step_contribution:
  "positioning_step score (lower p) = score + positioning_contribution p"
  by (simp add: positioning_step_def positioning_contribution_def)

lemma sentiment_of_typed:
  assumes "dict_get cot_dict ''positioning'' (PStr ''neutral'') = PStr positioning"
    and "as_number (dict_get cot_dict ''weekly_change'' (PInt 0)) = Some weekly_change"
    and "as_number (dict_get retail ''long_pct'' (PInt 50)) = Some long_pct"
  shows "calculate_sentiment_score (PDict cot_dict) (PDict retail)
     = Inr (sentiment_formula positioning weekly_change long_pct)"
  using assms
  by (simp add: calculate_sentiment_score_def positioning_step_contribution band_step_number
      sentiment_formula_def weekly_change_contribution_def retail_contribution_def)

lemma dict_get_update:
  "dict_get (AList.update k v d) k' dflt = (if k' = k then v else dict_get d k' dflt)"
  by (simp add: dict_get_def update_conv')

lemma sentiment_59_61:
  "sentiment_formula p c (Finite 61) \<le> sentiment_formula p c (Finite 59)"
  by (simp add: sentiment_formula_def retail_contribution_def)

text \<open>
  Claim C4. For every institutional and retail input (positioning a string or absent,
  weekly change and long percentage numbers or absent), the sentiment score is the sum,
  clamped to -2 .. 2, of the positioning vote (Bullish 1, Bearish -1, else 0), the
  weekly change vote (above 2 gives 1, below -2 gives -1, else 0) and the contrarian
  retail vote (above 60 gives -1, below 40 gives 1, else 0). With all else fixed, the
  score at a long percentage of 61 is at most the score at 59. Bearish positioning,
  a weekly change of -3.0 and 75 percent long give the raw sum -3 and the score -2.
\<close>

theorem sentiment_score_formula:
  assumes "dict_get cot_dict ''positioning'' (PStr ''neutral'') = PStr positioning"
    and "as_number (dict_get cot_dict ''weekly_change'' (PInt 0)) = Some weekly_change"
    and "as_number (dict_get retail ''long_pct'' (PInt 50)) = Some long_pct"
  shows "calculate_sentiment_score (PDict cot_dict) (PDict retail)
      = Inr (sentiment_formula positioning weekly_change long_pct)
    \<and> (\<exists>s59 s61.
         calculate_sentiment_score (PDict cot_dict)
           (PDict (AList.update ''long_pct'' (PFloat (Finite 59)) retail)) = Inr s59
       \<and> calculate_sentiment_score (PDict cot_dict)
           (PDict (AList.update ''long_pct'' (PFloat (Finite 61)) retail)) = Inr s61
       \<and> s61 \<le> s59)
    \<and> positioning_contribution ''Bearish'' + weekly_change_contribution (Finite (- 3))
        + retail_contribution (Finite 75) = - 3
    \<and> calculate_sentiment_score
        (PDict [(''positioning'', PStr ''Bearish''), (''weekly_change'', PFloat (Finite (- 3)))])
        (PDict [(''long_pct'', PFloat (Finite 75))]) = Inr (- 2)"
proof -
  have main: "calculate_sentiment_score (PDict cot_dict) (PDict retail)
      = Inr (sentiment_formula positioning weekly_change long_pct)"
    by (rule sentiment_of_typed [OF assms])
  have s59: "calculate_sentiment_score (PDict cot_dict)
           (PDict (AList.update ''long_pct'' (PFloat (Finite 59)) retail))
      = Inr (sentiment_formula positioning weekly_change (Finite 59))"
    by (rule sentiment_of_typed [OF assms(1,2)]) (simp add: dict_get_update)
  have s61: "calculate_sentiment_score (PDict cot_dict)
           (PDict (AList.update ''long_pct'' (PFloat (Finite 61)) retail))
      = Inr (sentiment_formula positioning weekly_change (Finite 61))"
    by (rule sentiment_of_typed [OF assms(1,2)]) (simp add: dict_get_update)
  have raw: "positioning_contribution ''Bearish'' + weekly_change_contribution (Finite (- 3))
        + retail_contribution (Finite 75) = - 3"
    by (simp add: positioning_contribution_def weekly_change_contribution_def
        retail_contribution_def lower_words)
  have c: "calculate_sentiment_score
        (PDict [(''positioning'', PStr ''Bearish''), (''weekly_change'', PFloat (Finite (- 3)))])
        (PDict [(''long_pct'', PFloat (Finite 75))])
      = Inr (sentiment_formula ''Bearish'' (Finite (- 3)) (Finite 75))"
    by (rule sentiment_of_typed) (simp_all add: dict_get_def)
  have "sentiment_formula ''Bearish'' (Finite (- 3)) (Finite 75) = - 2"
    using raw by (simp add: sentiment_formula_def)
  with c main s59 s61 raw sentiment_59_61 [of positioning weekly_change]
  show ?thesis by simp
qed

theorem sentiment_score_formula_witness:
  "calculate_sentiment_score
     (PDict [(''positioning'', PStr ''Bullish''), (''weekly_change'', PFloat (Finite (5 / 2)))])
     (PDict [(''long_pct'', PInt 30)]) = Inr 2
   \<and> calculate_sentiment_score (PDict []) (PDict []) = Inr 0"
proof -
  let ?c = "[(''positioning'', PStr ''Bullish''), (''weekly_change'', PFloat (Finite (5 / 2)))]"
  let ?r = "[(''long_pct'', PInt 30)]"
  have a: "dict_get ?c ''positioning'' (PStr ''neutral'') = PStr ''Bullish''"
    and b: "as_number (dict_get ?c ''weekly_change'' (PInt 0)) = Some (Finite (5 / 2))"
    and c: "as_number (dict_get ?r ''long_pct'' (PInt 50)) = Some (Finite 30)"
    and a0: "dict_get [] ''positioning'' (PStr ''neutral'') = PStr ''neutral''"
    and b0: "as_number (dict_get [] ''weekly_change'' (PInt 0)) = Some (Finite 0)"
    and c0: "as_number (dict_get [] ''long_pct'' (PInt 50)) = Some (Finite 50)"
    by (simp_all add: dict_get_def)
  have f: "sentiment_formula ''Bullish'' (Finite (5 / 2)) (Finite 30) = 2"
    by (simp add: sentiment_formula_def positioning_contribution_def lower_words
        weekly_change_contribution_def retail_contribution_def)
  have f0: "sentiment_formula ''neutral'' (Finite 0) (Finite 50) = 0"
    by (simp add: sentiment_formula_def positioning_contribution_def lower_def lower_char_def
        weekly_change_contribution_def retail_contribution_def)
  show ?thesis
    using sentiment_score_formula [OF a b c] sentiment_score_formula [OF a0 b0 c0]
    by (simp only: f f0)
qed

subsection \<open>Economic score\<close>

lemma metrics_dict: "metrics (PDict e) ks = Inr (map (\<lambda>k. dict_get e k (PInt 0)) ks)"
  by (induction ks) simp_all

lemma eco_loop_sum:
  "list_all null_or_number vs \<Longrightarrow>
     eco_loop score vs = Inr (score + sum_list (map surprise_contribution vs))"
proof (induction vs arbitrary: score)
  case Nil
  then show ?case by simp
next
  case (Cons v vs)
  then have ok: "null_or_number v" and rest: "list_all null_or_number vs" by simp_all
  show ?case
  proof (cases "v = PNone \<or> py_eq_zero v")
    case True
    then have "surprise_contribution v = 0"
      by (auto simp: surprise_contribution_def is_positive_def is_negative_def py_eq_zero_def)
    with True Cons.IH [OF rest] show ?thesis by simp
  next
    case False
    with ok obtain f where f: "as_number v = Some f"
      by (auto simp: null_or_number_def)
    have "band_step score v (IntLit 0) 1 (IntLit 0) (- 1) = Inr (score + surprise_contribution v)"
      by (simp add: band_step_number [OF f] surprise_contribution_def is_positive_def
          is_negative_def f)
    with False Cons.IH [OF rest] show ?thesis by simp
  qed
qed

lemma eco_of_typed:
  assumes "economic_typed economic"
  shows "calculate_eco_score (PDict economic) = Inr (eco_formula economic)"
  using assms
  by (simp add: calculate_eco_score_def metrics_dict economic_typed_def surprises_def
      eco_loop_sum eco_formula_def)

lemma float_gt_not_lt: "float_gt x c \<Longrightarrow> \<not> float_lt x c"
  by (cases x) simp_all

lemma positive_not_negative: "is_positive v \<Longrightarrow> \<not> is_negative v"
  by (auto simp: is_positive_def is_negative_def float_gt_not_lt split: option.splits)

lemma sum_contributions:
  "sum_list (map surprise_contribution vs)
     = int (length (filter is_positive vs)) - int (length (filter is_negative vs))"
  by (induction vs) (simp_all add: surprise_contribution_def positive_not_negative)

lemma eco_four_two:
  assumes "economic_typed economic"
    and "length (filter is_positive (surprises economic)) = 4"
    and "length (filter is_negative (surprises economic)) = 2"
  shows "calculate_eco_score (PDict economic) = Inr 2"
  by (simp add: eco_of_typed [OF assms(1)] eco_formula_def sum_contributions assms(2,3))

text \<open>
  Claim C5. For every economic mapping over the 14 canonical metrics (each absent, null
  or a number), the economic score is the sum over the metrics of 1 when the surprise
  is strictly positive and -1 when it is strictly negative, clamped to -5 .. 5; a metric
  that is absent, null or exactly 0 contributes nothing. When 4 metrics are positive
  and 2 are negative, and the rest contribute nothing, the score is 2.
\<close>

theorem eco_score_formula:
  assumes "economic_typed economic"
  shows "calculate_eco_score (PDict economic) = Inr (eco_formula economic)
    \<and> length metric_keys = 14 \<and> distinct metric_keys
    \<and> surprise_contribution (PFloat (Finite q))
        = (if 0 < q then 1 else if q < 0 then - 1 else 0)
    \<and> surprise_contribution (PInt i) = (if 0 < i then 1 else if i < 0 then - 1 else 0)
    \<and> surprise_contribution PNone = 0
    \<and> (map_of economic k = None \<longrightarrow>
         surprise_contribution (dict_get economic k (PInt 0)) = 0)
    \<and> (length (filter is_positive (surprises economic)) = 4
         \<and> length (filter is_negative (surprises economic)) = 2
       \<longrightarrow> calculate_eco_score (PDict economic) = Inr 2)"
proof -
  have keys: "length metric_keys = 14 \<and> distinct metric_keys"
    by (simp add: metric_keys_def)
  have contrib: "surprise_contribution (PFloat (Finite q))
        = (if 0 < q then 1 else if q < 0 then - 1 else 0)"
      "surprise_contribution (PInt i) = (if 0 < i then 1 else if i < 0 then - 1 else 0)"
      "surprise_contribution PNone = 0"
    by (simp_all add: surprise_contribution_def is_positive_def is_negative_def)
  have absent: "map_of economic k = None \<longrightarrow>
         surprise_contribution (dict_get economic k (PInt 0)) = 0"
    by (simp add: dict_get_def surprise_contribution_def is_positive_def is_negative_def)
  show ?thesis
    using eco_of_typed [OF assms] eco_four_two [OF assms] keys contrib absent
    by simp
qed

theorem eco_score_formula_witness:
  "calculate_eco_score
     (PDict [(''gdp_surprise'', PInt 1), (''mPMI_surprise'', PFloat (Finite (1 / 2))),
             (''sPMI_surprise'', PInt 2), (''retail_surprise'', PInt 1),
             (''ppi_surprise'', PInt (- 1)), (''nfp_surprise'', PFloat (Finite (- (3 / 10))))])
   = Inr 2"
proof -
  let ?e = "[(''gdp_surprise'', PInt 1), (''mPMI_surprise'', PFloat (Finite (1 / 2))),
             (''sPMI_surprise'', PInt 2), (''retail_surprise'', PInt 1),
             (''ppi_surprise'', PInt (- 1)), (''nfp_surprise'', PFloat (Finite (- (3 / 10))))]"
  have s: "surprises ?e = [PInt 1, PFloat (Finite (1 / 2)), PInt 2, PInt 1, PInt 0,
      PInt (- 1), PInt 0, PInt 0, PInt 0, PFloat (Finite (- (3 / 10))), PInt 0, PInt 0,
      PInt 0, PInt 0]"
    by (simp add: surprises_def metric_keys_def dict_get_def)
  have t: "economic_typed ?e"
    unfolding economic_typed_def s by (simp add: null_or_number_def)
  have p: "length (filter is_positive (surprises ?e)) = 4"
    unfolding s by (simp add: is_positive_def)
  have n: "length (filter is_negative (surprises ?e)) = 2"
    unfolding s by (simp add: is_negative_def)
  have "length (filter is_positive (surprises ?e)) = 4
      \<and> length (filter is_negative (surprises ?e)) = 2
      \<longrightarrow> calculate_eco_score (PDict ?e) = Inr 2"
    using eco_score_formula [OF t, of 0 0 "''x''"] by blast
  with p n show ?thesis by blast
qed

subsection \<open>Ranges of the scores\<close>

lemma technical_range:
  "calculate_technical_score v = Inr s \<Longrightarrow> - 3 \<le> s \<and> s \<le> 3"
  by (auto simp: calculate_technical_score_def and_then_def Let_def split: sum.splits)

lemma sentiment_range:
  "calculate_sentiment_score c r = Inr s \<Longrightarrow> - 2 \<le> s \<and> s \<le> 2"
  by (auto simp: calculate_sentiment_score_def and_then_def split: sum.splits)

lemma eco_range:
  "calculate_eco_score v = Inr s \<Longrightarrow> - 5 \<le> s \<and> s \<le> 5"
  by (auto simp: calculate_eco_score_def and_then_def split: sum.splits)

lemma seasonality_range:
  "calculate_seasonality_score v = Inr s \<Longrightarrow> - 2 \<le> s \<and> s \<le> 2"
  by (auto simp: calculate_seasonality_score_def and_then_def split: sum.splits if_splits)

lemma is_strE: "is_str v \<Longrightarrow> (\<And>s. v = PStr s \<Longrightarrow> P) \<Longrightarrow> P"
  by (cases v) simp_all

lemma technical_valid_returns:
  assumes "technical_valid v"
  shows "\<exists>s. calculate_technical_score v = Inr s"
proof (cases v)
  case (PDict technical)
  with assms obtain trend volatility
    where "dict_get technical ''trend'' (PStr ''neutral'') = PStr trend"
      and "dict_get technical ''volatility'' (PStr ''normal'') = PStr volatility"
    by (auto elim!: is_strE)
  then show ?thesis
    using technical_of_strings PDict by blast
qed (use assms in simp_all)

lemma sentiment_valid_returns:
  assumes "institutional_valid c" and "retail_valid r"
  shows "\<exists>s. calculate_sentiment_score c r = Inr s"
proof -
  from assms obtain cot_dict retail where c: "c = PDict cot_dict" and r: "r = PDict retail"
    by (cases c; cases r) simp_all
  with assms obtain positioning weekly_change long_pct
    where "dict_get cot_dict ''positioning'' (PStr ''neutral'') = PStr positioning"
      and "as_number (dict_get cot_dict ''weekly_change'' (PInt 0)) = Some weekly_change"
      and "as_number (dict_get retail ''long_pct'' (PInt 50)) = Some long_pct"
    by (auto elim!: is_strE simp: is_number_def)
  then show ?thesis
    using sentiment_of_typed c r by blast
qed

lemma eco_valid_returns:
  assumes "economic_valid v"
  shows "\<exists>s. calculate_eco_score v = Inr s"
  using assms by (cases v) (simp_all add: eco_of_typed)

lemma seasonality_valid_returns:
  assumes "seasonality_valid v"
  shows "\<exists>s. calculate_seasonality_score v = Inr s"
proof (cases v)
  case (PDict seasonality)
  with assms obtain x
    where x: "as_number (dict_get seasonality ''current_month_avg_return'' (PInt 0)) = Some x"
    by (auto simp: is_number_def)
  show ?thesis
    unfolding PDict calculate_seasonality_score_def
    by (simp add: seasonality_of_number [OF x])
qed (use assms in simp_all)

lemma valid_sub_scores:
  assumes "valid_observation asset_data"
  shows "\<exists>t s e z. sub_scores asset_data = Inr (t, s, e, z)"
proof -
  from assms obtain t where t:
      "calculate_technical_score (dict_get asset_data ''technical'' (PDict [])) = Inr t"
    using technical_valid_returns by (auto simp: valid_observation_def)
  from assms obtain s where s:
      "calculate_sentiment_score (dict_get asset_data ''cot'' (PDict []))
         (dict_get asset_data ''retail'' (PDict [])) = Inr s"
    using sentiment_valid_returns by (auto simp: valid_observation_def)
  from assms obtain e where e:
      "calculate_eco_score (dict_get asset_data ''economic'' (PDict [])) = Inr e"
    using eco_valid_returns by (auto simp: valid_observation_def)
  from assms obtain z where z:
      "calculate_seasonality_score (dict_get asset_data ''seasonality'' (PDict [])) = Inr z"
    using seasonality_valid_returns by (auto simp: valid_observation_def)
  show ?thesis
    by (simp add: sub_scores_def t s e z)
qed

lemma sub_scores_ranges:
  assumes "sub_scores asset_data = Inr (t, s, e, z)"
  shows "- 3 \<le> t \<and> t \<le> 3 \<and> - 2 \<le> s \<and> s \<le> 2 \<and> - 5 \<le> e \<and> e \<le> 5 \<and> - 2 \<le> z \<and> z \<le> 2"
proof -
  from assms have
    "calculate_technical_score (dict_get asset_data ''technical'' (PDict [])) = Inr t"
    "calculate_sentiment_score (dict_get asset_data ''cot'' (PDict []))
         (dict_get asset_data ''retail'' (PDict [])) = Inr s"
    "calculate_eco_score (dict_get asset_data ''economic'' (PDict [])) = Inr e"
    "calculate_seasonality_score (dict_get asset_data ''seasonality'' (PDict [])) = Inr z"
    by (auto simp: sub_scores_def and_then_def split: sum.splits)
  then show ?thesis
    using technical_range sentiment_range eco_range seasonality_range by blast
qed

lemma report_of_scores:
  assumes "sub_scores asset_data = Inr (t, s, e, z)"
  shows "calculate_asset_score now asset_data =
     [(''symbol'', dict_get asset_data ''symbol'' (PStr ''UNKNOWN'')),
      (''total_score'', PInt (t + s + e + z)),
      (''technical_score'', PInt t),
      (''sentiment_score'', PInt s),
      (''eco_score'', PInt e),
      (''seasonality_score'', PInt z),
      (''bias'', PStr (determine_bias (t + s + e + z))),
      (''timestamp'', PStr now),
      (''breakdown'', PDict
         [(''technical'', dict_get asset_data ''technical'' (PDict [])),
          (''cot'', dict_get asset_data ''cot'' (PDict [])),
          (''retail'', dict_get asset_data ''retail'' (PDict [])),
          (''economic'', dict_get asset_data ''economic'' (PDict []))])]"
  by (simp add: calculate_asset_score_def assms Let_def)

lemma report_of_exception:
  assumes "sub_scores asset_data = Inl e"
  shows "calculate_asset_score now asset_data =
     fallback_report (dict_get asset_data ''symbol'' (PStr ''UNKNOWN'')) e"
  by (simp add: calculate_asset_score_def assms fallback_report_def)

text \<open>
  Claim C2. For every valid input observation, the report of \<open>calculate_asset_score\<close>
  has a technical score in -3 .. 3, a sentiment score in -2 .. 2, an economic score in
  -5 .. 5 and a seasonality score in -2 .. 2, and its total score is exactly the sum of
  the four, hence in -12 .. 12.
\<close>

theorem score_report_ranges:
  assumes "valid_observation asset_data"
  shows "\<exists>t s e z.
      map_of (calculate_asset_score now asset_data) ''technical_score'' = Some (PInt t)
    \<and> map_of (calculate_asset_score now asset_data) ''sentiment_score'' = Some (PInt s)
    \<and> map_of (calculate_asset_score now asset_data) ''eco_score'' = Some (PInt e)
    \<and> map_of (calculate_asset_score now asset_data) ''seasonality_score'' = Some (PInt z)
    \<and> map_of (calculate_asset_score now asset_data) ''total_score'' = Some (PInt (t + s + e + z))
    \<and> map_of (calculate_asset_score now asset_data) ''error'' = None
    \<and> - 3 \<le> t \<and> t \<le> 3 \<and> - 2 \<le> s \<and> s \<le> 2 \<and> - 5 \<le> e \<and> e \<le> 5 \<and> - 2 \<le> z \<and> z \<le> 2
    \<and> - 12 \<le> t + s + e + z \<and> t + s + e + z \<le> 12"
proof -
  from valid_sub_scores [OF assms] obtain t s e z
    where sc: "sub_scores asset_data = Inr (t, s, e, z)" by blast
  have r: "- 3 \<le> t \<and> t \<le> 3 \<and> - 2 \<le> s \<and> s \<le> 2 \<and> - 5 \<le> e \<and> e \<le> 5 \<and> - 2 \<le> z \<and> z \<le> 2"
    by (rule sub_scores_ranges [OF sc])
  then have tot: "- 12 \<le> t + s + e + z \<and> t + s + e + z \<le> 12" by linarith
  have
    "map_of (calculate_asset_score now asset_data) ''technical_score'' = Some (PInt t)"
    "map_of (calculate_asset_score now asset_data) ''sentiment_score'' = Some (PInt s)"
    "map_of (calculate_asset_score now asset_data) ''eco_score'' = Some (PInt e)"
    "map_of (calculate_asset_score now asset_data) ''seasonality_score'' = Some (PInt z)"
    "map_of (calculate_asset_score now asset_data) ''total_score'' = Some (PInt (t + s + e + z))"
    "map_of (calculate_asset_score now asset_data) ''error'' = None"
    by (simp_all add: report_of_scores [OF sc])
  with r tot show ?thesis by blast
qed

theorem score_report_ranges_witness:
  "valid_observation test_asset
   \<and> (\<exists>t s e z.
      map_of (calculate_asset_score ''2026-11-04T12:00:00'' test_asset) ''technical_score''
        = Some (PInt t)
    \<and> map_of (calculate_asset_score ''2026-11-04T12:00:00'' test_asset) ''sentiment_score''
        = Some (PInt s)
    \<and> map_of (calculate_asset_score ''2026-11-04T12:00:00'' test_asset) ''eco_score''
        = Some (PInt e)
    \<and> map_of (calculate_asset_score ''2026-11-04T12:00:00'' test_asset) ''seasonality_score''
        = Some (PInt z)
    \<and> map_of (calculate_asset_score ''2026-11-04T12:00:00'' test_asset) ''total_score''
        = Some (PInt (t + s + e + z))
    \<and> map_of (calculate_asset_score ''2026-11-04T12:00:00'' test_asset) ''error'' = None
    \<and> - 3 \<le> t \<and> t \<le> 3 \<and> - 2 \<le> s \<and> s \<le> 2 \<and> - 5 \<le> e \<and> e \<le> 5 \<and> - 2 \<le> z \<and> z \<le> 2
    \<and> - 12 \<le> t + s + e + z \<and> t + s + e + z \<le> 12)"
proof -
  have v: "valid_observation test_asset"
    by code_simp
  show ?thesis
    using v score_report_ranges [OF v, of "''2026-11-04T12:00:00''"] by (rule conjI)
qed

subsection \<open>Exceptions inside the scoring\<close>









subsection \<open>The clock\<close>

text \<open>
  Claim C8, as the code has it. The report holds the reading of the clock under the key
  \<^verbatim>\<open>timestamp\<close>, so two calls on the same observation give reports that agree on
  every other field: the scores, the bias and the breakdown are a function of the
  observation alone, and a report of a successful scoring carries the reading of its
  call.
\<close>

theorem report_up_to_timestamp:
  "AList.delete ''timestamp'' (calculate_asset_score now asset_data)
     = AList.delete ''timestamp'' (calculate_asset_score now' asset_data)
   \<and> map_of (calculate_asset_score now asset_data) ''timestamp''
     = (case sub_scores asset_data of Inl e \<Rightarrow> None | Inr scores \<Rightarrow> Some (PStr now))"
proof (cases "sub_scores asset_data")
  case (Inl e)
  then show ?thesis
    by (simp add: report_of_exception fallback_report_def)
next
  case (Inr scores)
  then obtain t s e z where "sub_scores asset_data = Inr (t, s, e, z)"
    by (cases scores) auto
  then show ?thesis
    by (simp add: report_of_scores)
qed

theorem report_up_to_timestamp_witness:
  "AList.delete ''timestamp'' (calculate_asset_score ''2026-11-04T12:00:00'' test_asset)
     = AList.delete ''timestamp'' (calculate_asset_score ''2026-11-04T12:00:01'' test_asset)
   \<and> map_of (calculate_asset_score ''2026-11-04T12:00:00'' test_asset) ''timestamp''
     = Some (PStr ''2026-11-04T12:00:00'')"
proof -
  have "sub_scores test_asset = Inr (2, 2, 1, 2)"
    by code_simp
  then show ?thesis
    using report_up_to_timestamp [of "''2026-11-04T12:00:00''" test_asset "''2026-11-04T12:00:01''"]
    by simp
qed

theorem clock_counterexample:
  "calculate_asset_score ''2026-11-04T12:00:00'' test_asset
     \<noteq> calculate_asset_score ''2026-11-04T12:00:01'' test_asset"
proof -
  have "sub_scores test_asset = Inr (2, 2, 1, 2)"
    by code_simp
  then show ?thesis
    by (simp add: report_of_scores)
qed

subsection \<open>Ranking\<close>

lemma total_key_of_report:
  "\<exists>n. total_score_key (calculate_asset_score now asset_data) = Inr n"
proof (cases "sub_scores asset_data")
  case (Inl e)
  then show ?thesis
    by (simp add: report_of_exception fallback_report_def total_score_key_def)
next
  case (Inr scores)
  then obtain t s e z where "sub_scores asset_data = Inr (t, s, e, z)"
    by (cases scores) auto
  then show ?thesis
    by (simp add: report_of_scores total_score_key_def)
qed

lemma score_all_keys:
  "x \<in> set (score_all clock n assets) \<Longrightarrow> \<exists>k. total_score_key x = Inr k"
  by (induction assets arbitrary: n) (auto simp: total_key_of_report)


lemma score_all_map:
  "score_all clock n assets
     = map (\<lambda>i. calculate_asset_score (clock (n + i)) (assets ! i)) [0..<length assets]"
proof (induction assets arbitrary: n)
  case Nil
  then show ?case by simp
next
  case (Cons a assets)
  have "[0..<length (a # assets)] = 0 # map Suc [0..<length assets]"
    by (simp add: upt_conv_Cons map_Suc_upt del: upt_Suc)
  then show ?case
    by (simp add: Cons.IH comp_def del: upt_Suc)
qed

lemma keyed_all:
  assumes "\<And>x. x \<in> set xs \<Longrightarrow> \<exists>k. total_score_key x = Inr k"
  shows "keyed xs = Inr (map (\<lambda>x. (projr (total_score_key x), x)) xs)"
  using assms
proof (induction xs)
  case Nil
  then show ?case by simp
next
  case (Cons x xs)
  then obtain k where "total_score_key x = Inr k" by auto
  with Cons show ?case by simp
qed

lemma insort_key_pair:
  "insort_key fst (f y, y) (map (\<lambda>x. (f x, x)) zs) = map (\<lambda>x. (f x, x)) (insort_key f y zs)"
  by (induction zs) simp_all

lemma sort_key_pair:
  "sort_key fst (map (\<lambda>x. (f x, x)) ys) = map (\<lambda>x. (f x, x)) (sort_key f ys)"
  by (induction ys) (simp_all add: insort_key_pair)

lemma sort_reverse_pair:
  "sort_reverse (map (\<lambda>x. (f x, x)) xs) = rev (sort_key f (rev xs))"
  by (simp add: sort_reverse_def rev_map sort_key_pair comp_def)

lemma rank_assets_eq:
  "rank_assets clock assets
     = Inr (rev (sort_key (\<lambda>x. projr (total_score_key x)) (rev (score_all clock 0 assets))))"
  by (simp add: rank_assets_def Let_def keyed_all [OF score_all_keys] sort_reverse_pair)

lemma rev_sort_mset: "mset (rev (sort_key f (rev xs))) = mset xs"
  by simp

lemma rev_sort_descending:
  "sorted_wrt (\<lambda>a b. b \<le> a) (map f (rev (sort_key f (rev xs))))"
  by (simp add: sorted_wrt_rev flip: rev_map)

lemma rev_sort_stable:
  "filter (\<lambda>x. f x = k) (rev (sort_key f (rev xs))) = filter (\<lambda>x. f x = k) xs"
  by (simp add: sort_key_stable flip: rev_filter)

lemma rev_sort_id:
  assumes "sorted_wrt (\<lambda>a b. b \<le> a) (map f xs)"
  shows "rev (sort_key f (rev xs)) = xs"
proof -
  from assms have "sorted (map f (rev xs))"
    by (simp add: sorted_wrt_rev flip: rev_map)
  then show ?thesis
    by (simp add: sort_key_id_if_sorted)
qed

lemma key_filter:
  assumes "\<And>x. x \<in> set xs \<Longrightarrow> \<exists>k. total_score_key x = Inr k"
  shows "filter (\<lambda>x. total_score_key x = Inr k) xs
     = filter (\<lambda>x. projr (total_score_key x) = k) xs"
proof (rule filter_cong [OF refl])
  fix x
  assume "x \<in> set xs"
  then obtain k' where "total_score_key x = Inr k'"
    using assms by blast
  then show "(total_score_key x = Inr k) = (projr (total_score_key x) = k)"
    by simp
qed

lemma key_map:
  assumes "\<And>x. x \<in> set xs \<Longrightarrow> \<exists>k. total_score_key x = Inr k"
  shows "map total_score_key xs = map Inr (map (\<lambda>x. projr (total_score_key x)) xs)"
proof -
  have "total_score_key x = Inr (projr (total_score_key x))" if "x \<in> set xs" for x
  proof -
    from assms [OF that] obtain k where "total_score_key x = Inr k" by blast
    then show ?thesis by simp
  qed
  then show ?thesis by simp
qed

text \<open>
  Claim C9. For every finite sequence of observations, \<open>rank_assets\<close> applies
  \<open>calculate_asset_score\<close> to each one in order and returns the same reports sorted in
  descending order of the total score, reports of equal total keeping their input
  order. Three assets with totals 5, 5, -1 in the input order C, A, B come back in the
  order C, A, B.
\<close>

theorem rank_assets_stable_descending:
  "\<exists>rs ks. rank_assets clock assets = Inr rs
    \<and> score_all clock 0 assets
        = map (\<lambda>i. calculate_asset_score (clock i) (assets ! i)) [0..<length assets]
    \<and> mset rs = mset (score_all clock 0 assets)
    \<and> map total_score_key rs = map Inr ks
    \<and> sorted_wrt (\<lambda>a b. b \<le> a) ks
    \<and> (\<forall>k. filter (\<lambda>x. total_score_key x = Inr k) rs
           = filter (\<lambda>x. total_score_key x = Inr k) (score_all clock 0 assets))
    \<and> (map total_score_key (score_all clock 0 [c, a, b]) = [Inr 5, Inr 5, Inr (- 1)]
        \<longrightarrow> rank_assets clock [c, a, b] = Inr (score_all clock 0 [c, a, b]))"
proof -
  let ?f = "\<lambda>x. projr (total_score_key x)"
  let ?xs = "score_all clock 0 assets"
  let ?rs = "rev (sort_key ?f (rev ?xs))"
  have keys_xs: "\<And>x. x \<in> set ?xs \<Longrightarrow> \<exists>k. total_score_key x = Inr k"
    by (rule score_all_keys)
  have set_rs: "set ?rs = set ?xs" by simp
  have keys_rs: "\<And>x. x \<in> set ?rs \<Longrightarrow> \<exists>k. total_score_key x = Inr k"
    unfolding set_rs by (rule score_all_keys)
  have 1: "rank_assets clock assets = Inr ?rs" by (rule rank_assets_eq)
  have 2: "?xs = map (\<lambda>i. calculate_asset_score (clock i) (assets ! i)) [0..<length assets]"
    using score_all_map [of clock 0 assets] by simp
  have 3: "mset ?rs = mset ?xs" by (rule rev_sort_mset)
  have 4: "map total_score_key ?rs = map Inr (map ?f ?rs)"
    by (rule key_map [OF keys_rs])
  have 5: "sorted_wrt (\<lambda>a b. b \<le> a) (map ?f ?rs)" by (rule rev_sort_descending)
  have 6: "filter (\<lambda>x. total_score_key x = Inr k) ?rs
      = filter (\<lambda>x. total_score_key x = Inr k) ?xs" for k
    by (simp only: key_filter [OF keys_rs] key_filter [OF keys_xs] rev_sort_stable)
  have 7: "rank_assets clock [c, a, b] = Inr (score_all clock 0 [c, a, b])"
    if h: "map total_score_key (score_all clock 0 [c, a, b]) = [Inr 5, Inr 5, Inr (- 1)]"
  proof -
    have "sorted_wrt (\<lambda>a b. b \<le> a) (map ?f (score_all clock 0 [c, a, b]))"
      using h by simp
    then show ?thesis
      by (simp only: rank_assets_eq rev_sort_id)
  qed
  from 1 2 3 4 5 6 7 show ?thesis by blast
qed

theorem rank_assets_stable_descending_witness:
  "rank_assets noon [asset_C, asset_A, asset_B] = Inr (score_all noon 0 [asset_C, asset_A, asset_B])
   \<and> map (\<lambda>r. map_of r ''symbol'') (score_all noon 0 [asset_C, asset_A, asset_B])
       = [Some (PStr ''C''), Some (PStr ''A''), Some (PStr ''B'')]
   \<and> map total_score_key (score_all noon 0 [asset_C, asset_A, asset_B])
       = [Inr 5, Inr 5, Inr (- 1)]"
proof -
  have c: "sub_scores asset_C = Inr (3, 2, 0, 0)"
    and a: "sub_scores asset_A = Inr (0, 0, 5, 0)"
    and b: "sub_scores asset_B = Inr (0, 0, 0, - 1)"
    by code_simp+
  have k: "map total_score_key (score_all noon 0 [asset_C, asset_A, asset_B])
       = [Inr 5, Inr 5, Inr (- 1)]"
    by (simp add: report_of_scores [OF c] report_of_scores [OF a] report_of_scores [OF b]
        total_score_key_def)
  have sym: "dict_get asset_C ''symbol'' (PStr ''UNKNOWN'') = PStr ''C''"
    "dict_get asset_A ''symbol'' (PStr ''UNKNOWN'') = PStr ''A''"
    "dict_get asset_B ''symbol'' (PStr ''UNKNOWN'') = PStr ''B''"
    by (simp_all add: asset_C_def asset_A_def asset_B_def dict_get_def)
  have s: "map (\<lambda>r. map_of r ''symbol'') (score_all noon 0 [asset_C, asset_A, asset_B])
       = [Some (PStr ''C''), Some (PStr ''A''), Some (PStr ''B'')]"
    by (simp add: report_of_scores [OF c] report_of_scores [OF a] report_of_scores [OF b] sym)
  have imp: "map total_score_key (score_all noon 0 [asset_C, asset_A, asset_B])
       = [Inr 5, Inr 5, Inr (- 1)]
     \<longrightarrow> rank_assets noon [asset_C, asset_A, asset_B]
       = Inr (score_all noon 0 [asset_C, asset_A, asset_B])"
    using rank_assets_stable_descending
      [of noon "[asset_C, asset_A, asset_B]" asset_C asset_A asset_B]
    by (elim exE conjE)
  from imp k have r: "rank_assets noon [asset_C, asset_A, asset_B]
       = Inr (score_all noon 0 [asset_C, asset_A, asset_B])"
    by (rule mp)
  from r s k show ?thesis by (intro conjI)
qed

subsection \<open>Exceptions and the fallback report\<close>


















end
